theory Spec2Isabelle
  imports Main "HOL-Library.Word"
begin

unbundle bit_operations_syntax

section \<open>C integers\<close>

text \<open>
  The kernel is built for x86-64: \<open>int\<close> has 32 bits, \<open>long long\<close> has 64. Values of
  both are carried as HOL integers; \<open>s32\<close> and \<open>s64\<close> reduce a result to the two's
  complement range where the format engine's arithmetic can leave it (the digit
  parser, the negations, the conversion of a 64-bit argument). Field widths and
  screen geometry (pixel sizes, cell coordinates, pixel offsets) are carried as plain
  integers, for formats and geometries whose sums and products fit an \<open>int\<close>.
\<close>

definition s32 :: "int \<Rightarrow> int" where
  "s32 v = (v + 2 ^ 31) mod 2 ^ 32 - 2 ^ 31"

definition s64 :: "int \<Rightarrow> int" where
  "s64 v = (v + 2 ^ 63) mod 2 ^ 64 - 2 ^ 63"

text \<open>C's \<open>/\<close> and \<open>%\<close> truncate towards zero.\<close>

definition c_div :: "int \<Rightarrow> int \<Rightarrow> int" where
  "c_div a b = (if (a < 0) = (b < 0) then \<bar>a\<bar> div \<bar>b\<bar> else - (\<bar>a\<bar> div \<bar>b\<bar>))"

definition c_mod :: "int \<Rightarrow> int \<Rightarrow> int" where
  "c_mod a b = a - b * c_div a b"

datatype error =
    DivideError
  | NullDereference
  | BadAddress
  | OutOfBoundsRead
  | NoMoreArgs
  | FloatDirective

section \<open>Screen state\<close>

text \<open>
  \<open>struct screen_info pos\<close>, the single global of the console. The cursor fields
  \<open>pos.x\<close> and \<open>pos.y\<close> are named \<open>pos_x\<close> and \<open>pos_y\<close> here. \<open>FB_address\<close> keeps
  the base address; the pixel memory behind it is a separate store, indexed by the
  offset from the base in pixels (\<open>unsigned int\<close> cells), which also covers the
  memory outside the interval \<open>0 ..< width * height\<close>.
\<close>

record screen_info =
  width :: int
  height :: int
  max_x :: int
  max_y :: int
  pos_x :: int
  pos_y :: int
  char_size_x :: int
  char_size_y :: int
  FB_address :: "64 word"
  FB_length :: int

type_synonym framebuffer = "int \<Rightarrow> 32 word"

text \<open>
  What \<open>printk.h\<close> supplies and the sources do not contain: the glyph table
  (\<open>font_ascii[c]\<close> is the array of scanline bytes of glyph \<open>c\<close>), the colour
  \<open>BLACK\<close> and the status code \<open>EPOS_OVERFLOW\<close>. They are parameters of the model.
\<close>

record printk_h =
  font_ascii :: "nat \<Rightarrow> nat \<Rightarrow> 8 word"
  BLACK :: "32 word"
  EPOS_OVERFLOW :: int

definition calculate_max_charNum :: "int \<Rightarrow> int \<Rightarrow> error + int" where
  "calculate_max_charNum len csize =
     (if csize = 0 \<or> (len = - (2 ^ 31) \<and> csize = - 1) then Inl DivideError
      else Inr (c_div len csize))"

definition init_printk ::
  "int \<Rightarrow> int \<Rightarrow> 64 word \<Rightarrow> int \<Rightarrow> int \<Rightarrow> int \<Rightarrow> error + (int \<times> screen_info)" where
  "init_printk w h fb_address fb_length csx csy =
     (case calculate_max_charNum w csx of
        Inl e \<Rightarrow> Inl e
      | Inr mx \<Rightarrow>
          (case calculate_max_charNum h csy of
             Inl e \<Rightarrow> Inl e
           | Inr my \<Rightarrow>
               Inr (0, \<lparr> width = w, height = h, max_x = mx, max_y = my,
                         pos_x = 0, pos_y = 0, char_size_x = csx, char_size_y = csy,
                         FB_address = fb_address, FB_length = fb_length \<rparr>)))"

definition set_printk_pos :: "printk_h \<Rightarrow> int \<Rightarrow> int \<Rightarrow> screen_info \<Rightarrow> int \<times> screen_info" where
  "set_printk_pos hdr x y pos =
     (if \<not> ((x \<ge> 0 \<and> x \<le> max_x pos) \<and> (y \<ge> 0 \<and> y \<le> max_y pos))
      then (EPOS_OVERFLOW hdr, pos)
      else (0, pos\<lparr>pos_x := x, pos_y := y\<rparr>))"

definition auto_newline :: "screen_info \<Rightarrow> screen_info" where
  "auto_newline pos =
     (let pos1 = (if pos_x pos > max_x pos
                  then pos\<lparr>pos_x := 0, pos_y := pos_y pos + 1\<rparr> else pos)
      in if pos_y pos1 > max_y pos1 then pos1\<lparr>pos_y := 0\<rparr> else pos1)"

section \<open>Glyph rendering\<close>

text \<open>
  \<open>putchar\<close> stores one pixel per tested bit. The inner loop over the columns of one
  scanline yields its stores in order, each a pair of pixel offset and colour;
  \<open>testbit\<close> is shifted right before every test, as in the source.
\<close>

function putchar_cols ::
  "int \<Rightarrow> int \<Rightarrow> 32 word \<Rightarrow> 8 word \<Rightarrow> int \<Rightarrow> 32 word \<Rightarrow> 32 word \<Rightarrow> (int \<times> 32 word) list" where
  "putchar_cols csx j testbit font_byte addr FRcolor BKcolor =
     (if j < csx then
        (let testbit' = signed_drop_bit 1 testbit
         in (addr, if ucast font_byte AND testbit' \<noteq> 0 then FRcolor else BKcolor)
            # putchar_cols csx (j + 1) testbit' font_byte (addr + 1) FRcolor BKcolor)
      else [])"
  by pat_completeness auto
termination
  by (relation "measure (\<lambda>(csx, j, _). nat (csx - j))") auto

declare putchar_cols.simps [simp del]

function putchar_rows ::
  "printk_h \<Rightarrow> screen_info \<Rightarrow> int \<Rightarrow> int \<Rightarrow> int \<Rightarrow> int \<Rightarrow> 32 word \<Rightarrow> 32 word \<Rightarrow> nat
     \<Rightarrow> (int \<times> 32 word) list" where
  "putchar_rows hdr pos i Xsize x y FRcolor BKcolor font =
     (if i < char_size_y pos then
        putchar_cols (char_size_x pos) 0 (push_bit (nat (char_size_x pos + 1)) 1)
            (font_ascii hdr font (nat i)) (Xsize * (y + i) + x) FRcolor BKcolor
          @ putchar_rows hdr pos (i + 1) Xsize x y FRcolor BKcolor font
      else [])"
  by pat_completeness auto
termination
  by (relation "measure (\<lambda>(hdr, pos, i, _). nat (char_size_y pos - i))") auto

declare putchar_rows.simps [simp del]

definition putchar_writes ::
  "printk_h \<Rightarrow> screen_info \<Rightarrow> int \<Rightarrow> int \<Rightarrow> int \<Rightarrow> 32 word \<Rightarrow> 32 word \<Rightarrow> nat
     \<Rightarrow> (int \<times> 32 word) list" where
  "putchar_writes hdr pos Xsize x y FRcolor BKcolor font =
     putchar_rows hdr pos 0 Xsize x y FRcolor BKcolor font"

definition putchar ::
  "printk_h \<Rightarrow> screen_info \<Rightarrow> framebuffer \<Rightarrow> int \<Rightarrow> int \<Rightarrow> int \<Rightarrow> 32 word \<Rightarrow> 32 word \<Rightarrow> nat
     \<Rightarrow> framebuffer" where
  "putchar hdr pos fb Xsize x y FRcolor BKcolor font =
     foldl (\<lambda>m (a, c). m(a := c)) fb (putchar_writes hdr pos Xsize x y FRcolor BKcolor font)"

section \<open>Console writer\<close>

text \<open>
  The body of the tab branch's \<open>while (space_to_print--)\<close>. The counter starts at
  \<open>8 - pos.x % 8\<close>, which lies between 1 and 15 for every \<open>pos.x\<close>, so it is a
  natural number.
\<close>

fun tab_loop :: "printk_h \<Rightarrow> nat \<Rightarrow> screen_info \<times> framebuffer \<Rightarrow> screen_info \<times> framebuffer" where
  "tab_loop hdr 0 st = st"
| "tab_loop hdr (Suc n) (pos, fb) =
     tab_loop hdr n
       (auto_newline (pos\<lparr>pos_x := pos_x pos + 1\<rparr>),
        putchar hdr pos fb (width pos) (pos_x pos * char_size_x pos)
          (pos_y pos * char_size_y pos) (BLACK hdr) (BLACK hdr) (of_char CHR '' ''))"

text \<open>One iteration of the loop of \<open>printk_color\<close> over the formatted buffer.\<close>

definition printk_char ::
  "printk_h \<Rightarrow> 32 word \<Rightarrow> 32 word \<Rightarrow> char \<Rightarrow> screen_info \<times> framebuffer
     \<Rightarrow> screen_info \<times> framebuffer" where
  "printk_char hdr FRcolor BKcolor current st =
     (case st of (pos, fb) \<Rightarrow>
        if current = CHR 0x0A then
          (pos\<lparr>pos_x := 0, pos_y := pos_y pos + 1\<rparr>, fb)
        else if current = CHR 0x09 then
          tab_loop hdr (nat (8 - c_mod (pos_x pos) 8)) (pos, fb)
        else if current = CHR 0x08 then
          (let pos1 = pos\<lparr>pos_x := pos_x pos - 1\<rparr>;
               pos2 = (if pos_x pos1 < 0 then
                         (let pos' = pos1\<lparr>pos_y := pos_y pos1 - 1\<rparr>
                          in if pos_y pos' \<le> 0 then pos'\<lparr>pos_x := 0, pos_y := 0\<rparr>
                             else pos'\<lparr>pos_x := max_x pos'\<rparr>)
                       else pos1)
           in (auto_newline (pos2\<lparr>pos_x := pos_x pos2 + 1\<rparr>),
               putchar hdr pos2 fb (width pos2) (pos_x pos2 * char_size_x pos2)
                 (pos_y pos2 * char_size_y pos2) FRcolor BKcolor (of_char CHR '' '')))
        else
          (auto_newline (pos\<lparr>pos_x := pos_x pos + 1\<rparr>),
           putchar hdr pos fb (width pos) (pos_x pos * char_size_x pos)
             (pos_y pos * char_size_y pos) FRcolor BKcolor (of_char current)))"

fun printk_loop ::
  "printk_h \<Rightarrow> 32 word \<Rightarrow> 32 word \<Rightarrow> string \<Rightarrow> screen_info \<times> framebuffer
     \<Rightarrow> screen_info \<times> framebuffer" where
  "printk_loop hdr FRcolor BKcolor [] st = st"
| "printk_loop hdr FRcolor BKcolor (current # rest) st =
     printk_loop hdr FRcolor BKcolor rest (printk_char hdr FRcolor BKcolor current st)"

section \<open>Format engine\<close>

text \<open>
  Modelled from the spec: the flag bits \<open>PAD_ZERO\<close>, \<open>LEFT\<close>, \<open>PLUS\<close>, \<open>SPACE\<close>,
  \<open>SPECIAL\<close>, \<open>SMALL\<close> and \<open>SIGN\<close> are macros of \<open>printk.h\<close>, which is not among the
  sources. The spec describes \<open>flags\<close> as a flag set; \<open>flags |= F\<close> inserts,
  \<open>flags & F\<close> tests membership, \<open>flags &= ~F\<close> removes, and
  \<open>flags & (LEFT+PAD_ZERO)\<close> tests whether either of the two is present.
\<close>

datatype flag = PAD_ZERO | LEFT | PLUS | SPACE | SPECIAL | SMALL | SIGN

text \<open>
  Modelled from the spec: the macro \<open>is_digit\<close> of \<open>printk.h\<close> recognises the decimal
  digits of a literal width.
\<close>

definition is_digit :: "char \<Rightarrow> bool" where
  "is_digit c = ((48::nat) \<le> of_char c \<and> of_char c \<le> (57::nat))"

text \<open>
  Modelled from the spec: the macro \<open>ABS\<close> of \<open>printk.h\<close> computes the absolute
  magnitude; on \<open>long long\<close> the negation of the least value wraps to itself.
\<close>

definition ABS :: "int \<Rightarrow> int" where
  "ABS v = (if v < 0 then s64 (- v) else v)"

text \<open>
  A format string is the list of its bytes; the end of the list is the terminating
  NUL. \<open>cur fmt\<close> is \<open>*fmt\<close>.
\<close>

definition cur :: "string \<Rightarrow> char" where
  "cur fmt = (case fmt of [] \<Rightarrow> CHR 0x00 | c # _ \<Rightarrow> c)"

text \<open>
  The variadic arguments. On x86-64 every integer or pointer argument occupies one
  8-byte slot (a register or a stack word); \<open>va_arg\<close> with a 32-bit type reads the
  low half of the slot, with a 64-bit type all of it. An \<open>int\<close> argument is the
  slot's low half, whatever the high half holds. Running past the last argument is
  an error of the model.
\<close>

definition va_arg :: "64 word list \<Rightarrow> error + (64 word \<times> 64 word list)" where
  "va_arg args = (case args of [] \<Rightarrow> Inl NoMoreArgs | a # rest \<Rightarrow> Inr (a, rest))"

definition as_int :: "64 word \<Rightarrow> int" where
  "as_int a = sint (ucast a :: 32 word)"

definition as_unsigned_int :: "64 word \<Rightarrow> int" where
  "as_unsigned_int a = uint (ucast a :: 32 word)"

text \<open>
  \<open>write_num\<close> takes its number as \<open>long long\<close>: a 64-bit argument of any type
  (\<open>long long\<close>, \<open>unsigned long long\<close>, \<open>unsigned long\<close>) arrives as the signed
  reading of its slot.
\<close>

definition as_long_long :: "64 word \<Rightarrow> int" where
  "as_long_long a = sint a"

text \<open>
  Strings in memory: \<open>mem a\<close> is the string stored at address \<open>a\<close> (its bytes before
  the terminator), if there is one.

  Modelled from the spec: \<open>strlen\<close> is not among the sources. The spec speaks of
  the length of the string argument; the model takes the C library function, which
  reads the bytes at \<open>s\<close> up to the terminator, so that a null \<open>s\<close> is a read
  through the null pointer.
\<close>

type_synonym memory = "64 word \<Rightarrow> string option"

definition strlen :: "memory \<Rightarrow> 64 word \<Rightarrow> error + int" where
  "strlen mem s =
     (if s = 0 then Inl NullDereference
      else case mem s of None \<Rightarrow> Inl BadAddress | Some cs \<Rightarrow> Inr (int (length cs)))"

fun atoi_loop :: "string \<Rightarrow> int \<Rightarrow> int \<times> string" where
  "atoi_loop [] ans = (ans, [])"
| "atoi_loop (c # s) ans =
     (if is_digit c then atoi_loop s (s32 (ans * 10 + int (of_char c) - 48))
      else (ans, c # s))"

definition skip_and_atoi :: "string \<Rightarrow> int \<times> string" where
  "skip_and_atoi s = atoi_loop s 0"

subsection \<open>The padding loops\<close>

text \<open>\<open>while (field_width-- > 0) *str++ = c;\<close> returns the counter it leaves, too.\<close>

function pad_while :: "int \<Rightarrow> char \<Rightarrow> string \<Rightarrow> int \<times> string" where
  "pad_while field_width c str =
     (if field_width > 0 then pad_while (field_width - 1) c (str @ [c])
      else (field_width - 1, str))"
  by pat_completeness auto
termination
  by (relation "measure (\<lambda>(field_width, _). nat field_width)") auto

declare pad_while.simps [simp del]

text \<open>\<open>while (--field_width > 0) *str++ = ' ';\<close>\<close>

function pad_pre :: "int \<Rightarrow> string \<Rightarrow> int \<times> string" where
  "pad_pre field_width str =
     (if field_width - 1 > 0 then pad_pre (field_width - 1) (str @ [CHR '' ''])
      else (field_width - 1, str))"
  by pat_completeness auto
termination
  by (relation "measure (\<lambda>(field_width, _). nat field_width)") auto

declare pad_pre.simps [simp del]

text \<open>\<open>while (len < field_width--) *str++ = ' ';\<close>\<close>

function pad_len :: "int \<Rightarrow> int \<Rightarrow> string \<Rightarrow> int \<times> string" where
  "pad_len len field_width str =
     (if len < field_width then pad_len len (field_width - 1) (str @ [CHR '' ''])
      else (field_width - 1, str))"
  by pat_completeness auto
termination
  by (relation "measure (\<lambda>(len, field_width, _). nat (field_width - len))") auto

declare pad_len.simps [simp del]

text \<open>\<open>while (js_num < precision) { --precision; *str++ = '0'; }\<close>\<close>

function zero_fill :: "int \<Rightarrow> int \<Rightarrow> string \<Rightarrow> string" where
  "zero_fill js_num precision str =
     (if js_num < precision then zero_fill js_num (precision - 1) (str @ [CHR ''0''])
      else str)"
  by pat_completeness auto
termination
  by (relation "measure (\<lambda>(js_num, precision, _). nat (precision - js_num))") auto

declare zero_fill.simps [simp del]

subsection \<open>write_num\<close>

definition digits_upper :: string where
  "digits_upper = ''0123456789ABCDEFGHIJKLMNOPQRSTUVWXYZ''"

definition digits_lower :: string where
  "digits_lower = ''0123456789abcdefghijklmnopqrstuvwxyz''"

text \<open>
  The conversion loop \<open>while (num > 0)\<close>; \<open>tmp_num\<close> receives the digits least
  significant first. \<open>write_num\<close> has left with a null result unless
  \<open>2 \<le> base \<le> 36\<close>, which the guard repeats.
\<close>

function to_digits :: "string \<Rightarrow> int \<Rightarrow> int \<Rightarrow> string \<Rightarrow> string" where
  "to_digits digits num base tmp_num =
     (if num > 0 \<and> 2 \<le> base
      then to_digits digits (c_div num base) base (tmp_num @ [digits ! nat (c_mod num base)])
      else tmp_num)"
  by pat_completeness auto
termination
proof (relation "measure (\<lambda>(digits, num, base, tmp_num). nat num)")
  show "wf (measure (\<lambda>(digits, num, base, tmp_num). nat num))"
    by simp
next
  fix digits :: string and num base :: int and tmp_num :: string
  assume a: "num > 0 \<and> 2 \<le> base"
  then have "num div base < num"
    by (simp add: int_div_less_self)
  with a show "((digits, c_div num base, base, tmp_num @ [digits ! nat (c_mod num base)]),
                (digits, num, base, tmp_num))
               \<in> measure (\<lambda>(digits, num, base, tmp_num). nat num)"
    by (simp add: c_div_def)
qed

declare to_digits.simps [simp del]

text \<open>\<open>while (js_num-- > 0) *str++ = tmp_num[js_num];\<close>\<close>

function emit_digits :: "int \<Rightarrow> string \<Rightarrow> string \<Rightarrow> string" where
  "emit_digits js_num tmp_num str =
     (if js_num > 0 then emit_digits (js_num - 1) tmp_num (str @ [tmp_num ! nat (js_num - 1)])
      else str)"
  by pat_completeness auto
termination
  by (relation "measure (\<lambda>(js_num, _). nat js_num)") auto

declare emit_digits.simps [simp del]

text \<open>
  \<open>str\<close> is the output written so far; the result is the output after the number,
  or \<open>None\<close> for the null pointer returned on an unsupported base.
\<close>

definition write_num :: "string \<Rightarrow> int \<Rightarrow> int \<Rightarrow> int \<Rightarrow> int \<Rightarrow> flag set \<Rightarrow> string option" where
  "write_num str num base field_width precision flags =
     (if base < 2 \<or> base > 36 then None
      else
        let digits = (if SMALL \<in> flags then digits_lower else digits_upper);
            flags = (if LEFT \<in> flags then flags - {PAD_ZERO} else flags);
            pad = (if PAD_ZERO \<in> flags then CHR ''0'' else CHR '' '');
            neg = (SIGN \<in> flags \<and> num < 0);
            sign = (if neg then CHR ''-''
                    else if PLUS \<in> flags then CHR ''+''
                    else if SPACE \<in> flags then CHR '' '' else CHR 0x00);
            num = (if neg then s64 (- num) else num);
            field_width = (if sign \<noteq> CHR 0x00 then field_width - 1 else field_width);
            field_width = (if SPECIAL \<in> flags
                           then (if base = 16 then field_width - 2
                                 else if base = 8 then field_width - 1 else field_width)
                           else field_width);
            tmp_num = (if num = 0 then [CHR ''0''] else to_digits digits (ABS num) base []);
            js_num = int (length tmp_num);
            precision = (if js_num > precision then js_num else precision);
            field_width = field_width - precision;
            (field_width, str) = (if \<not> (LEFT \<in> flags \<or> PAD_ZERO \<in> flags)
                                  then pad_while field_width (CHR '' '') str
                                  else (field_width, str));
            str = (if sign \<noteq> CHR 0x00 then str @ [sign] else str);
            str = (if SPECIAL \<in> flags
                   then (if base = 16 then str @ [CHR ''0'', digits ! 33]
                         else if base = 8 then str @ [digits ! 24] else str)
                   else str);
            (field_width, str) = (if \<not> (LEFT \<in> flags)
                                  then pad_while field_width pad str
                                  else (field_width, str));
            str = zero_fill js_num precision str;
            str = emit_digits js_num tmp_num str;
            (field_width, str) = pad_while field_width (CHR '' '') str
        in Some str)"

subsection \<open>vsprintf\<close>

text \<open>
  What \<open>vsprintf\<close> carries from one directive to the next: the output written so far
  (\<open>buf\<close> up to \<open>str\<close>), the remaining variadic arguments, the local \<open>qualifier\<close>
  and the stores made through the pointers of \<open>%n\<close> directives (address and value).
  The locals \<open>flags\<close>, \<open>field_width\<close> and \<open>precision\<close> are assigned anew in every
  directive before they are read (lines 129, 178 and 195).
\<close>

record fmt_state =
  buf :: string
  va_args :: "64 word list"
  qualifier :: int
  stores :: "(64 word \<times> int) list"

text \<open>
  The loop \<open>while (flag_tmp)\<close> over the flag characters. The third component is
  \<open>flag_break\<close>: the template ended inside the directive.
\<close>

fun parse_flags :: "string \<Rightarrow> flag set \<Rightarrow> flag set \<times> string \<times> bool" where
  "parse_flags [] flags = (flags, [], True)"
| "parse_flags (c # fmt) flags =
     (if c = CHR 0x00 then (flags, c # fmt, True)
      else if c = CHR ''-'' then parse_flags fmt (insert LEFT flags)
      else if c = CHR ''+'' then parse_flags fmt (insert PLUS flags)
      else if c = CHR '' '' then parse_flags fmt (insert SPACE flags)
      else if c = CHR ''#'' then parse_flags fmt (insert SPECIAL flags)
      else if c = CHR ''0'' then parse_flags fmt (insert PAD_ZERO flags)
      else (flags, c # fmt, False))"

text \<open>Lines 177 to 192: the field width.\<close>

definition get_width ::
  "string \<Rightarrow> flag set \<Rightarrow> 64 word list \<Rightarrow> error + (int \<times> flag set \<times> 64 word list \<times> string)" where
  "get_width fmt flags args =
     (if cur fmt = CHR ''*'' then
        (case va_arg args of
           Inl e \<Rightarrow> Inl e
         | Inr (a, args') \<Rightarrow> Inr (as_int a, flags, args', tl fmt))
      else if is_digit (cur fmt) then
        (case skip_and_atoi fmt of
           (field_width, fmt') \<Rightarrow>
             if field_width < 0 then Inr (s32 (- field_width), insert LEFT flags, args, fmt')
             else Inr (field_width, flags, args, fmt'))
      else Inr (- 1, flags, args, fmt))"

text \<open>Lines 194 to 208: the precision.\<close>

definition get_precision ::
  "string \<Rightarrow> 64 word list \<Rightarrow> error + (int \<times> 64 word list \<times> string)" where
  "get_precision fmt args =
     (if cur fmt = CHR ''.'' then
        (let fmt1 = tl fmt in
         if cur fmt1 = CHR ''*'' then
           (case va_arg args of
              Inl e \<Rightarrow> Inl e
            | Inr (a, args') \<Rightarrow> Inr (as_int a, args', tl fmt1))
         else if is_digit (cur fmt1) then
           (case skip_and_atoi fmt1 of (precision, fmt') \<Rightarrow> Inr (precision, args, fmt'))
         else Inr (- 1, args, fmt1))
      else Inr (- 1, args, fmt))"

text \<open>
  Lines 210 to 215: the length modifier. Without one, \<open>qualifier\<close> keeps the value
  it has.
\<close>

definition get_qualifier :: "string \<Rightarrow> int \<Rightarrow> int \<times> string" where
  "get_qualifier fmt q =
     (if cur fmt = CHR ''h'' \<or> cur fmt = CHR ''l'' \<or> cur fmt = CHR ''L'' \<or> cur fmt = CHR ''Z''
      then (int (of_char (cur fmt)), tl fmt)
      else (q, fmt))"

text \<open>
  Line 217: \<open>if (qualifier == 'l' && *fmt == 'l', *(fmt + 1) == 'd') ++fmt;\<close>. The
  comma operator leaves \<open>*(fmt + 1) == 'd'\<close> as the condition. When \<open>fmt\<close> stands on
  the terminator, \<open>fmt + 1\<close> is outside the string.
\<close>

definition skip_lld :: "string \<Rightarrow> error + string" where
  "skip_lld fmt =
     (case fmt of
        [] \<Rightarrow> Inl OutOfBoundsRead
      | c # fmt1 \<Rightarrow> if cur fmt1 = CHR ''d'' then Inr fmt1 else Inr fmt)"

text \<open>
  \<open>str = write_num(str, va_arg(args, T), base, field_width, precision, flags)\<close>,
  where \<open>conv\<close> reads the slot as a \<open>T\<close> and converts to \<open>long long\<close>. After a null
  result the next store through \<open>str\<close> is a store through the null pointer.
\<close>

definition write_num_arg ::
  "fmt_state \<Rightarrow> (64 word \<Rightarrow> int) \<Rightarrow> int \<Rightarrow> int \<Rightarrow> int \<Rightarrow> flag set \<Rightarrow> error + fmt_state" where
  "write_num_arg st conv base field_width precision flags =
     (case va_arg (va_args st) of
        Inl e \<Rightarrow> Inl e
      | Inr (a, args') \<Rightarrow>
          (case write_num (buf st) (conv a) base field_width precision flags of
             None \<Rightarrow> Inl NullDereference
           | Some str \<Rightarrow> Inr (st\<lparr>buf := str, va_args := args'\<rparr>)))"

text \<open>The character copy of \<open>%s\<close>: \<open>for (i = 0; i < len; i++) { *str = *s; ++s; ++str; }\<close>\<close>

fun copy_chars :: "nat \<Rightarrow> string \<Rightarrow> string \<Rightarrow> string" where
  "copy_chars 0 s str = str"
| "copy_chars (Suc n) [] str = str"
| "copy_chars (Suc n) (c # s) str = copy_chars n s (str @ [c])"

text \<open>
  The \<open>switch (*fmt)\<close> of lines 222 to 374. \<open>sizeof(void *)\<close> is 8. The \<open>%f\<close>
  conversion works on a \<open>double\<close>; floating point is outside this model, and the
  directive ends the run with \<open>FloatDirective\<close>.
\<close>

definition convert ::
  "memory \<Rightarrow> fmt_state \<Rightarrow> flag set \<Rightarrow> int \<Rightarrow> int \<Rightarrow> char \<Rightarrow> error + fmt_state" where
  "convert mem st flags field_width precision c =
     (if c = CHR ''%'' then Inr (st\<lparr>buf := buf st @ [CHR ''%'']\<rparr>)
      else if c = CHR ''c'' then
        (let (field_width, str) =
               (if LEFT \<notin> flags then pad_pre field_width (buf st) else (field_width, buf st))
         in case va_arg (va_args st) of
              Inl e \<Rightarrow> Inl e
            | Inr (a, args') \<Rightarrow>
                (let str = str @ [char_of (unat (ucast a :: 8 word))];
                     (field_width, str) = pad_pre field_width str
                 in Inr (st\<lparr>buf := str, va_args := args'\<rparr>)))
      else if c = CHR ''s'' then
        (case va_arg (va_args st) of
           Inl e \<Rightarrow> Inl e
         | Inr (s, args') \<Rightarrow>
             (let s = (if s = 0 then 0 else s)
              in case strlen mem s of
                   Inl e \<Rightarrow> Inl e
                 | Inr len \<Rightarrow>
                     (let len = (if precision < 0 then len
                                 else if len > precision then precision else len);
                          (field_width, str) =
                             (if LEFT \<notin> flags then pad_len len field_width (buf st)
                              else (field_width, buf st));
                          str = copy_chars (nat len) (case mem s of None \<Rightarrow> [] | Some cs \<Rightarrow> cs) str;
                          (field_width, str) = pad_len len field_width str
                      in Inr (st\<lparr>buf := str, va_args := args'\<rparr>))))
      else if c = CHR ''o'' \<or> c = CHR ''O'' then
        (let flags = (if c = CHR ''o'' then insert SMALL flags else flags);
             flags = insert SPECIAL flags
         in if qualifier st = 108
            then write_num_arg st as_long_long 8 field_width precision flags
            else write_num_arg st as_int 8 field_width precision flags)
      else if c = CHR ''p'' then
        (let (field_width, flags) =
               (if field_width = 0 then (2 * 8, insert PAD_ZERO flags) else (field_width, flags))
         in write_num_arg st as_long_long 16 field_width precision flags)
      else if c = CHR ''x'' \<or> c = CHR ''X'' then
        (let flags = (if c = CHR ''x'' then insert SMALL flags else flags)
         in if qualifier st = 108
            then write_num_arg st as_long_long 16 field_width precision flags
            else write_num_arg st as_int 16 field_width precision flags)
      else if c = CHR ''i'' \<or> c = CHR ''d'' then
        (let flags = insert SIGN flags
         in if qualifier st = 108
            then write_num_arg st as_long_long 10 field_width precision flags
            else write_num_arg st as_int 10 field_width precision flags)
      else if c = CHR ''u'' then
        (if qualifier st = 108
         then write_num_arg st as_long_long 10 field_width precision flags
         else write_num_arg st as_unsigned_int 10 field_width precision flags)
      else if c = CHR ''n'' then
        (case va_arg (va_args st) of
           Inl e \<Rightarrow> Inl e
         | Inr (ip, args') \<Rightarrow>
             Inr (st\<lparr>va_args := args', stores := stores st @ [(ip, int (length (buf st)))]\<rparr>))
      else if c = CHR ''f'' then Inl FloatDirective
      else
        Inr (st\<lparr>buf := (if c \<noteq> CHR 0x00 then buf st @ [CHR ''%'', c] else buf st @ [CHR ''%''])\<rparr>))"

text \<open>
  One directive, from the character after the flags to the \<open>++fmt\<close> of the \<open>for\<close>
  loop. In the default case on the terminator, \<open>--fmt\<close> and that \<open>++fmt\<close> leave \<open>fmt\<close>
  where it is.
\<close>

definition directive ::
  "memory \<Rightarrow> fmt_state \<Rightarrow> flag set \<Rightarrow> string \<Rightarrow> error + (fmt_state \<times> string)" where
  "directive mem st flags fmt =
     (case get_width fmt flags (va_args st) of
        Inl e \<Rightarrow> Inl e
      | Inr (field_width, flags, args1, fmt1) \<Rightarrow>
          (case get_precision fmt1 args1 of
             Inl e \<Rightarrow> Inl e
           | Inr (precision, args2, fmt2) \<Rightarrow>
               (case get_qualifier fmt2 (qualifier st) of
                  (q, fmt3) \<Rightarrow>
                    (case skip_lld fmt3 of
                       Inl e \<Rightarrow> Inl e
                     | Inr fmt4 \<Rightarrow>
                         (case convert mem (st\<lparr>va_args := args2, qualifier := q\<rparr>)
                                 flags field_width precision (cur fmt4) of
                            Inl e \<Rightarrow> Inl e
                          | Inr st' \<Rightarrow>
                              Inr (st', if cur fmt4 = CHR 0x00 then fmt4 else tl fmt4))))))"


text \<open>Every parsing step moves \<open>fmt\<close> forward or leaves it in place.\<close>

lemma parse_flags_length:
  "parse_flags fmt flags = (flags', fmt', b) \<Longrightarrow> length fmt' \<le> length fmt"
  by (induction fmt arbitrary: flags) (auto split: if_splits intro: le_SucI)

lemma atoi_loop_length:
  "atoi_loop s ans = (v, s') \<Longrightarrow> length s' \<le> length s"
  by (induction s arbitrary: ans) (auto split: if_splits intro: le_SucI)

lemma get_width_length:
  "get_width fmt flags args = Inr (field_width, flags', args', fmt') \<Longrightarrow> length fmt' \<le> length fmt"
  by (auto simp: get_width_def skip_and_atoi_def split: if_splits sum.splits prod.splits
           dest: atoi_loop_length)

lemma get_precision_length:
  "get_precision fmt args = Inr (precision, args', fmt') \<Longrightarrow> length fmt' \<le> length fmt"
  by (auto simp: get_precision_def skip_and_atoi_def Let_def
           split: if_splits sum.splits prod.splits dest: atoi_loop_length)

lemma get_qualifier_length:
  "get_qualifier fmt q = (q', fmt') \<Longrightarrow> length fmt' \<le> length fmt"
  by (auto simp: get_qualifier_def split: if_splits)

lemma skip_lld_length:
  "skip_lld fmt = Inr fmt' \<Longrightarrow> length fmt' \<le> length fmt"
  by (auto simp: skip_lld_def split: list.splits if_splits)

lemma directive_length:
  assumes "directive mem st flags fmt = Inr (st', fmt')"
  shows "length fmt' \<le> length fmt"
proof -
  from assms obtain field_width flags1 args1 fmt1 where
    w: "get_width fmt flags (va_args st) = Inr (field_width, flags1, args1, fmt1)"
    by (auto simp: directive_def split: sum.splits)
  from assms w obtain precision args2 fmt2 where
    p: "get_precision fmt1 args1 = Inr (precision, args2, fmt2)"
    by (auto simp: directive_def split: sum.splits)
  obtain q fmt3 where q: "get_qualifier fmt2 (qualifier st) = (q, fmt3)"
    by (cases "get_qualifier fmt2 (qualifier st)")
  from assms w p q obtain fmt4 where
    l: "skip_lld fmt3 = Inr fmt4"
    by (auto simp: directive_def split: sum.splits)
  from assms w p q l have "fmt' = (if cur fmt4 = CHR 0x00 then fmt4 else tl fmt4)"
    by (auto simp: directive_def split: sum.splits)
  then have "length fmt' \<le> length fmt4"
    by (simp split: if_splits)
  with get_width_length [OF w] get_precision_length [OF p] get_qualifier_length [OF q]
    skip_lld_length [OF l]
  show ?thesis by linarith
qed

text \<open>
  The \<open>for (; *fmt; ++fmt)\<close> loop. A literal character is copied; a \<open>%\<close> starts a
  directive, and \<open>flag_break\<close> leaves the loop.
\<close>

function vsprintf_loop :: "memory \<Rightarrow> fmt_state \<Rightarrow> string \<Rightarrow> error + fmt_state" where
  "vsprintf_loop mem st [] = Inr st"
| "vsprintf_loop mem st (c # fmt) =
     (if c = CHR 0x00 then Inr st
      else if c \<noteq> CHR ''%'' then vsprintf_loop mem (st\<lparr>buf := buf st @ [c]\<rparr>) fmt
      else
        (case parse_flags fmt {} of
           (flags, fmt1, flag_break) \<Rightarrow>
             if flag_break then Inr st
             else
               (case directive mem st flags fmt1 of
                  Inl e \<Rightarrow> Inl e
                | Inr (st', fmt2) \<Rightarrow> vsprintf_loop mem st' fmt2)))"
  by pat_completeness auto
termination
proof (relation "measure (\<lambda>(mem, st, fmt). length fmt)", goal_cases)
  case 1
  show ?case by simp
next
  case (2 mem st c fmt)
  show ?case by simp
next
  case (3 mem st c fmt flags y fmt1 flag_break x2 st' fmt2)
  then have "parse_flags fmt {} = (flags, fmt1, flag_break)"
    and "directive mem st flags fmt1 = Inr (st', fmt2)"
    by simp_all
  then have "length fmt1 \<le> length fmt" and "length fmt2 \<le> length fmt1"
    by (auto dest: parse_flags_length directive_length)
  then show ?case
    by simp
qed

text \<open>
  \<open>vsprintf\<close> returns the length of the output. \<open>qualifier0\<close> is the value the
  uninitialised local \<open>qualifier\<close> happens to hold on entry.
\<close>

definition vsprintf :: "memory \<Rightarrow> int \<Rightarrow> string \<Rightarrow> 64 word list \<Rightarrow> error + (int \<times> fmt_state)" where
  "vsprintf mem qualifier0 fmt args =
     (case vsprintf_loop mem \<lparr>buf = [], va_args = args, qualifier = qualifier0, stores = []\<rparr> fmt of
        Inl e \<Rightarrow> Inl e
      | Inr st \<Rightarrow> Inr (int (length (buf st)), st))"

text \<open>
  \<open>printk_color\<close> formats into the global buffer and walks the \<open>len\<close> characters
  written; it returns their number.
\<close>

definition printk_color ::
  "printk_h \<Rightarrow> memory \<Rightarrow> int \<Rightarrow> 32 word \<Rightarrow> 32 word \<Rightarrow> string \<Rightarrow> 64 word list
     \<Rightarrow> screen_info \<times> framebuffer \<Rightarrow> error + (int \<times> screen_info \<times> framebuffer)" where
  "printk_color hdr mem qualifier0 FRcolor BKcolor fmt args scr =
     (case vsprintf mem qualifier0 fmt args of
        Inl e \<Rightarrow> Inl e
      | Inr (len, st) \<Rightarrow>
          Inr (len, printk_loop hdr FRcolor BKcolor (take (nat len) (buf st)) scr))"

section \<open>Auxiliary facts\<close>

text \<open>The defining equations a concrete run of the format engine unfolds.\<close>

lemmas loop_simps =
  pad_while.simps pad_pre.simps pad_len.simps zero_fill.simps to_digits.simps emit_digits.simps

lemmas vsprintf_eval =
  vsprintf_def directive_def get_width_def get_precision_def get_qualifier_def skip_lld_def
  convert_def write_num_arg_def write_num_def va_arg_def strlen_def cur_def is_digit_def
  skip_and_atoi_def s32_def s64_def as_int_def as_long_long_def as_unsigned_int_def
  digits_upper_def digits_lower_def ABS_def c_div_def c_mod_def Let_def

subsection \<open>Literal text and truncated directives\<close>

lemma vsprintf_loop_literal:
  "\<forall>c \<in> set pre. c \<noteq> CHR ''%'' \<and> c \<noteq> CHR 0x00 \<Longrightarrow>
   vsprintf_loop mem st (pre @ rest) = vsprintf_loop mem (st\<lparr>buf := buf st @ pre\<rparr>) rest"
  by (induction pre arbitrary: st) simp_all

lemma parse_flags_only_flags:
  "set fl \<subseteq> {CHR ''-'', CHR ''+'', CHR '' '', CHR ''#'', CHR ''0''} \<Longrightarrow>
   \<exists>flags'. parse_flags fl flags = (flags', [], True)"
  by (induction fl arbitrary: flags) auto

lemma vsprintf_loop_truncated:
  assumes "set fl \<subseteq> {CHR ''-'', CHR ''+'', CHR '' '', CHR ''#'', CHR ''0''}"
  shows "vsprintf_loop mem st (CHR ''%'' # fl) = Inr st"
proof -
  from parse_flags_only_flags [OF assms] obtain flags' where
    "parse_flags fl {} = (flags', [], True)" by blast
  then show ?thesis by simp
qed

subsection \<open>The pixels a glyph stores\<close>

lemma putchar_cols_offsets:
  "fst ` set (putchar_cols csx j testbit font_byte addr FRcolor BKcolor) = {addr ..< addr + (csx - j)}"
proof (induction csx j testbit font_byte addr FRcolor BKcolor rule: putchar_cols.induct)
  case (1 csx j testbit font_byte addr FRcolor BKcolor)
  show ?case
  proof (cases "j < csx")
    case True
    with "1.IH" [OF True refl] show ?thesis
      by (subst putchar_cols.simps) (auto simp: Let_def)
  next
    case False
    then show ?thesis
      by (subst putchar_cols.simps) simp
  qed
qed

lemma putchar_rows_offsets:
  "fst ` set (putchar_rows hdr pos i Xsize x y FRcolor BKcolor font) =
     (\<Union>r \<in> {i ..< char_size_y pos}.
        {Xsize * (y + r) + x ..< Xsize * (y + r) + x + char_size_x pos})"
proof (induction hdr pos i Xsize x y FRcolor BKcolor font rule: putchar_rows.induct)
  case (1 hdr pos i Xsize x y FRcolor BKcolor font)
  show ?case
  proof (cases "i < char_size_y pos")
    case True
    then have "{i ..< char_size_y pos} = insert i {i + 1 ..< char_size_y pos}"
      by auto
    with "1.IH" [OF True] True show ?thesis
      by (subst putchar_rows.simps) (simp add: putchar_cols_offsets image_Un)
  next
    case False
    then show ?thesis
      by (subst putchar_rows.simps) simp
  qed
qed

lemma putchar_writes_offsets:
  "fst ` set (putchar_writes hdr pos Xsize x y FRcolor BKcolor font) =
     (\<Union>r \<in> {0 ..< char_size_y pos}.
        {Xsize * (y + r) + x ..< Xsize * (y + r) + x + char_size_x pos})"
  by (simp add: putchar_writes_def putchar_rows_offsets)

text \<open>Truncating division: the cells cover all but a last partial cell.\<close>

lemma c_div_upper: "0 < b \<Longrightarrow> a \<le> c_div a b * b + b - 1"
proof (cases "0 \<le> a")
  case True
  assume b: "0 < b"
  have "a = a div b * b + a mod b" by simp
  moreover from b have "a mod b \<le> b - 1" using pos_mod_bound [of b a] by linarith
  ultimately have "a \<le> a div b * b + b - 1" by linarith
  with True b show ?thesis by (simp add: c_div_def)
next
  case False
  assume b: "0 < b"
  have "(- a) div b * b + (- a) mod b = - a" by simp
  moreover from b have "0 \<le> (- a) mod b" by simp
  ultimately have "(- a) div b * b \<le> - a" by linarith
  with False b show ?thesis by (simp add: c_div_def)
qed

subsection \<open>The cursor and the grid\<close>

text \<open>
  On a grid with \<open>0 \<le> max_x\<close> and \<open>0 \<le> max_y\<close>, every character other than the
  newline takes a cursor inside the grid to a cursor inside the grid.
\<close>

lemma auto_newline_in_grid:
  assumes "0 \<le> max_x pos" and "0 \<le> max_y pos"
    and "0 \<le> pos_x pos" and "pos_x pos \<le> max_x pos + 1"
    and "0 \<le> pos_y pos" and "pos_y pos \<le> max_y pos"
  shows "0 \<le> pos_x (auto_newline pos) \<and> pos_x (auto_newline pos) \<le> max_x pos
       \<and> 0 \<le> pos_y (auto_newline pos) \<and> pos_y (auto_newline pos) \<le> max_y pos
       \<and> max_x (auto_newline pos) = max_x pos \<and> max_y (auto_newline pos) = max_y pos"
  using assms by (auto simp: auto_newline_def Let_def)

lemma tab_loop_in_grid:
  assumes "0 \<le> max_x pos" and "0 \<le> max_y pos"
    and "0 \<le> pos_x pos" and "pos_x pos \<le> max_x pos"
    and "0 \<le> pos_y pos" and "pos_y pos \<le> max_y pos"
  shows "0 \<le> pos_x (fst (tab_loop hdr n (pos, fb)))
       \<and> pos_x (fst (tab_loop hdr n (pos, fb))) \<le> max_x pos
       \<and> 0 \<le> pos_y (fst (tab_loop hdr n (pos, fb)))
       \<and> pos_y (fst (tab_loop hdr n (pos, fb))) \<le> max_y pos
       \<and> max_x (fst (tab_loop hdr n (pos, fb))) = max_x pos
       \<and> max_y (fst (tab_loop hdr n (pos, fb))) = max_y pos"
  using assms
proof (induction n arbitrary: pos fb)
  case 0
  then show ?case by simp
next
  case (Suc n)
  let ?p = "auto_newline (pos\<lparr>pos_x := pos_x pos + 1\<rparr>)"
  from Suc.prems have p: "0 \<le> pos_x ?p \<and> pos_x ?p \<le> max_x pos
       \<and> 0 \<le> pos_y ?p \<and> pos_y ?p \<le> max_y pos
       \<and> max_x ?p = max_x pos \<and> max_y ?p = max_y pos"
    using auto_newline_in_grid [of "pos\<lparr>pos_x := pos_x pos + 1\<rparr>"] by simp
  with Suc.prems Suc.IH [of ?p] show ?case
    by simp
qed

lemma printk_char_in_grid:
  assumes "0 \<le> max_x pos" and "0 \<le> max_y pos"
    and "0 \<le> pos_x pos" and "pos_x pos \<le> max_x pos"
    and "0 \<le> pos_y pos" and "pos_y pos \<le> max_y pos"
    and "current \<noteq> CHR 0x0A"
  shows "0 \<le> pos_x (fst (printk_char hdr FRcolor BKcolor current (pos, fb)))
       \<and> pos_x (fst (printk_char hdr FRcolor BKcolor current (pos, fb))) \<le> max_x pos
       \<and> 0 \<le> pos_y (fst (printk_char hdr FRcolor BKcolor current (pos, fb)))
       \<and> pos_y (fst (printk_char hdr FRcolor BKcolor current (pos, fb))) \<le> max_y pos
       \<and> max_x (fst (printk_char hdr FRcolor BKcolor current (pos, fb))) = max_x pos
       \<and> max_y (fst (printk_char hdr FRcolor BKcolor current (pos, fb))) = max_y pos"
proof -
  consider (tab) "current = CHR 0x09" | (bs) "current = CHR 0x08"
    | (other) "current \<noteq> CHR 0x09" "current \<noteq> CHR 0x08"
    by blast
  then show ?thesis
  proof cases
    case tab
    with assms tab_loop_in_grid [of pos hdr _ fb] show ?thesis
      by (simp add: printk_char_def)
  next
    case bs
    with assms show ?thesis
      by (auto simp: printk_char_def Let_def auto_newline_def)
  next
    case other
    with assms auto_newline_in_grid [of "pos\<lparr>pos_x := pos_x pos + 1\<rparr>"] show ?thesis
      by (simp add: printk_char_def)
  qed
qed

lemma printk_loop_in_grid:
  assumes "0 \<le> max_x pos" and "0 \<le> max_y pos"
    and "0 \<le> pos_x pos" and "pos_x pos \<le> max_x pos"
    and "0 \<le> pos_y pos" and "pos_y pos \<le> max_y pos"
    and "CHR 0x0A \<notin> set s"
  shows "0 \<le> pos_x (fst (printk_loop hdr FRcolor BKcolor s (pos, fb)))
       \<and> pos_x (fst (printk_loop hdr FRcolor BKcolor s (pos, fb))) \<le> max_x pos
       \<and> 0 \<le> pos_y (fst (printk_loop hdr FRcolor BKcolor s (pos, fb)))
       \<and> pos_y (fst (printk_loop hdr FRcolor BKcolor s (pos, fb))) \<le> max_y pos"
  using assms
proof (induction s arbitrary: pos fb)
  case Nil
  then show ?case by simp
next
  case (Cons current s)
  obtain pos' fb' where step: "printk_char hdr FRcolor BKcolor current (pos, fb) = (pos', fb')"
    by (cases "printk_char hdr FRcolor BKcolor current (pos, fb)")
  from Cons.prems have "current \<noteq> CHR 0x0A" and rest: "CHR 0x0A \<notin> set s"
    by auto
  with Cons.prems printk_char_in_grid [of pos current hdr FRcolor BKcolor fb] step
  have "0 \<le> pos_x pos' \<and> pos_x pos' \<le> max_x pos \<and> 0 \<le> pos_y pos' \<and> pos_y pos' \<le> max_y pos
      \<and> max_x pos' = max_x pos \<and> max_y pos' = max_y pos"
    by simp
  with Cons.prems(1,2) rest Cons.IH [of pos' fb'] step show ?case
    by simp
qed

section \<open>Claims\<close>

text \<open>
  C1: after every public operation the cursor satisfies \<open>0 \<le> x \<le> max_x\<close> and
  \<open>0 \<le> y \<le> max_y\<close>; in particular a newline printed on row \<open>max_y\<close> leaves \<open>y\<close>
  within bounds. The code does not: the newline branch of \<open>printk_color\<close> increments
  \<open>pos.y\<close> and, unlike the three other branches, does not call \<open>auto_newline\<close>. From
  any screen state with the cursor on row \<open>max_y\<close>, printing \<open>"\n"\<close> ends with
  \<open>y = max_y + 1\<close>.
\<close>

theorem printk_color_newline_last_row:
  "printk_color hdr mem q FRcolor BKcolor [CHR 0x0A] args (pos\<lparr>pos_y := max_y pos\<rparr>, fb)
     = Inr (1, pos\<lparr>pos_x := 0, pos_y := max_y pos + 1\<rparr>, fb)"
  by (simp add: printk_color_def vsprintf_def printk_char_def)

text \<open>
  C2: a \<open>%p\<close> directive without a width prints the pointer in hexadecimal in a field
  of twice the pointer size, padded with zeros. The code tests \<open>field_width == 0\<close>,
  but a width that is not given is \<open>-1\<close> (line 178), so the default is never taken
  for such a directive: the pointer \<open>0x1234\<close> is printed as \<open>1234\<close>, not as
  \<open>0000000000001234\<close>.
\<close>

theorem vsprintf_p_no_width:
  "vsprintf mem q ''%p'' [0x1234]
     = Inr (4, \<lparr>buf = ''1234'', va_args = [], qualifier = q, stores = []\<rparr>)"
  by (simp add: vsprintf_eval loop_simps)

text \<open>
  C3: \<open>%lu\<close> prints the decimal digits of the unsigned 64-bit value itself. The code
  passes the value to \<open>write_num\<close> as a \<open>long long\<close> and takes its magnitude: for
  \<open>v = 2^64 - 1\<close> the output is \<open>1\<close>, not \<open>18446744073709551615\<close>.
\<close>

theorem vsprintf_lu_max:
  "vsprintf mem q ''%lu'' [0xFFFFFFFFFFFFFFFF]
     = Inr (1, \<lparr>buf = ''1'', va_args = [], qualifier = 108, stores = []\<rparr>)"
  by (simp add: vsprintf_eval loop_simps)

text \<open>
  C4: a backspace in column 0 of a row \<open>y \<ge> 1\<close> moves the cursor to the end of the
  previous row, so that from \<open>(0, 1)\<close> the space glyph is drawn at \<open>(max_x, 0)\<close>. The
  code decrements \<open>pos.y\<close> and then tests \<open>pos.y <= 0\<close>: from \<open>(0, 1)\<close> it resets the
  cursor to \<open>(0, 0)\<close>, draws the glyph at the pixel origin and advances to column 1.
\<close>

theorem printk_color_backspace_row_one:
  "printk_color hdr mem q FRcolor BKcolor [CHR 0x08] args (pos\<lparr>pos_x := 0, pos_y := 1\<rparr>, fb)
     = Inr (1, auto_newline (pos\<lparr>pos_y := 0, pos_x := 1\<rparr>),
            putchar hdr (pos\<lparr>pos_x := 0, pos_y := 0\<rparr>) fb (width pos) 0 0 FRcolor BKcolor 32)"
  by (simp add: printk_color_def vsprintf_def printk_char_def Let_def)

text \<open>
  C5: no part of a directive's parse state survives the directive. The code assigns
  \<open>flags\<close>, \<open>field_width\<close> and \<open>precision\<close> in every directive, but \<open>qualifier\<close> only
  when a length modifier is present: after \<open>%ld\<close>, a plain \<open>%d\<close> still fetches a
  \<open>long long\<close>. With the bit pattern of the \<open>int\<close> \<open>-1\<close> in the low half of the second
  slot, \<open>%ld%d\<close> prints \<open>4294967295\<close> for it, while \<open>%d%d\<close> prints \<open>-1\<close>.
\<close>

theorem vsprintf_qualifier_persists:
  "vsprintf mem q ''%ld%d'' [1, 0xFFFFFFFF]
     = Inr (11, \<lparr>buf = ''14294967295'', va_args = [], qualifier = 108, stores = []\<rparr>)
   \<and> vsprintf mem 0 ''%d%d'' [1, 0xFFFFFFFF]
     = Inr (3, \<lparr>buf = ''1-1'', va_args = [], qualifier = 0, stores = []\<rparr>)"
  by (simp add: vsprintf_eval loop_simps)

text \<open>
  C6: a null string argument of \<open>%s\<close> is treated as the empty string and never
  dereferenced. The code replaces a null \<open>s\<close> by \<open>'\0'\<close>, which is the null pointer
  again, and passes it to \<open>strlen\<close>.
\<close>

theorem vsprintf_s_null:
  "vsprintf mem q ''%s'' [0] = Inl NullDereference"
  by (simp add: vsprintf_eval)

text \<open>
  C7, as stated: a template that ends right after a \<open>%\<close> yields a single \<open>%\<close> for
  that directive, so that \<open>"abc%"\<close> gives \<open>"abc%"\<close>. The flag loop meets the
  terminator first and leaves the \<open>for\<close> loop (\<open>flag_break\<close>): \<open>"abc%"\<close> gives
  \<open>"abc"\<close>.
\<close>

theorem vsprintf_abc_percent:
  "vsprintf Map.empty 0 ''abc%'' []
     = Inr (3, \<lparr>buf = ''abc'', va_args = [], qualifier = 0, stores = []\<rparr>)
   \<and> vsprintf Map.empty 0 ''abc%'' []
     \<noteq> Inr (4, \<lparr>buf = ''abc%'', va_args = [], qualifier = 0, stores = []\<rparr>)"
  by (simp add: vsprintf_def)

text \<open>
  C7, amended: when a template consists of literal text, a \<open>%\<close> and zero or more flag
  characters, the engine emits nothing for the directive; the output is the literal
  text, and no argument is consumed.
\<close>

theorem vsprintf_truncated_directive:
  assumes "\<forall>c \<in> set pre. c \<noteq> CHR ''%'' \<and> c \<noteq> CHR 0x00"
    and "set fl \<subseteq> {CHR ''-'', CHR ''+'', CHR '' '', CHR ''#'', CHR ''0''}"
  shows "vsprintf mem q (pre @ CHR ''%'' # fl) args
           = Inr (int (length pre), \<lparr>buf = pre, va_args = args, qualifier = q, stores = []\<rparr>)"
proof -
  have "vsprintf_loop mem st (pre @ CHR ''%'' # fl) = Inr (st\<lparr>buf := buf st @ pre\<rparr>)" for st
    by (simp only: vsprintf_loop_literal [OF assms(1)] vsprintf_loop_truncated [OF assms(2)])
  then show ?thesis
    by (simp add: vsprintf_def)
qed

theorem vsprintf_truncated_directive_witness:
  "vsprintf Map.empty 0 ''abc%-0'' [7]
     = Inr (3, \<lparr>buf = ''abc'', va_args = [7], qualifier = 0, stores = []\<rparr>)"
  using vsprintf_truncated_directive [of "''abc''" "''-0''" "Map.empty" 0 "[7]"]
  by simp

text \<open>
  C8: \<open>set_printk_pos x y\<close> returns 0 and moves the cursor to \<open>(x, y)\<close> exactly when
  \<open>0 \<le> x \<le> max_x\<close> and \<open>0 \<le> y \<le> max_y\<close>; otherwise it returns \<open>EPOS_OVERFLOW\<close> and the
  screen state is the one it was called with. (\<open>EPOS_OVERFLOW\<close> is a status other
  than the success value 0.)
\<close>

theorem set_printk_pos_iff:
  assumes "EPOS_OVERFLOW hdr \<noteq> 0"
  shows "(set_printk_pos hdr x y pos = (0, pos\<lparr>pos_x := x, pos_y := y\<rparr>)
            \<longleftrightarrow> (0 \<le> x \<and> x \<le> max_x pos \<and> 0 \<le> y \<and> y \<le> max_y pos))
         \<and> (fst (set_printk_pos hdr x y pos) = 0
            \<longleftrightarrow> (0 \<le> x \<and> x \<le> max_x pos \<and> 0 \<le> y \<and> y \<le> max_y pos))
         \<and> (\<not> (0 \<le> x \<and> x \<le> max_x pos \<and> 0 \<le> y \<and> y \<le> max_y pos)
            \<longrightarrow> set_printk_pos hdr x y pos = (EPOS_OVERFLOW hdr, pos))"
  using assms by (auto simp: set_printk_pos_def)

theorem set_printk_pos_iff_witness:
  "EPOS_OVERFLOW \<lparr>font_ascii = \<lambda>c r. 0, BLACK = 0, EPOS_OVERFLOW = 1\<rparr> \<noteq> 0
   \<and> set_printk_pos \<lparr>font_ascii = \<lambda>c r. 0, BLACK = 0, EPOS_OVERFLOW = 1\<rparr> 11 (- 1)
         \<lparr>width = 80, height = 48, max_x = 10, max_y = 3, pos_x = 4, pos_y = 2,
            char_size_x = 8, char_size_y = 16, FB_address = 0, FB_length = 15360\<rparr>
       = (1, \<lparr>width = 80, height = 48, max_x = 10, max_y = 3, pos_x = 4, pos_y = 2,
                char_size_x = 8, char_size_y = 16, FB_address = 0, FB_length = 15360\<rparr>)
   \<and> set_printk_pos \<lparr>font_ascii = \<lambda>c r. 0, BLACK = 0, EPOS_OVERFLOW = 1\<rparr> 10 3
         \<lparr>width = 80, height = 48, max_x = 10, max_y = 3, pos_x = 4, pos_y = 2,
            char_size_x = 8, char_size_y = 16, FB_address = 0, FB_length = 15360\<rparr>
       = (0, \<lparr>width = 80, height = 48, max_x = 10, max_y = 3, pos_x = 10, pos_y = 3,
                char_size_x = 8, char_size_y = 16, FB_address = 0, FB_length = 15360\<rparr>)"
  using
    set_printk_pos_iff [of "\<lparr>font_ascii = \<lambda>c r. 0, BLACK = 0, EPOS_OVERFLOW = 1\<rparr>" 11 "- 1"
      "\<lparr>width = 80, height = 48, max_x = 10, max_y = 3, pos_x = 4, pos_y = 2,
         char_size_x = 8, char_size_y = 16, FB_address = 0, FB_length = 15360\<rparr>"]
    set_printk_pos_iff [of "\<lparr>font_ascii = \<lambda>c r. 0, BLACK = 0, EPOS_OVERFLOW = 1\<rparr>" 10 3
      "\<lparr>width = 80, height = 48, max_x = 10, max_y = 3, pos_x = 4, pos_y = 2,
         char_size_x = 8, char_size_y = 16, FB_address = 0, FB_length = 15360\<rparr>"]
  by simp

text \<open>
  C9: the decimal 42 in a field of width 5 is \<open>"   42"\<close>, with the left-align flag
  \<open>"42   "\<close>, with the zero-pad flag \<open>"00042"\<close>.
\<close>

theorem vsprintf_width_5:
  "vsprintf mem q ''%5d'' [42]
     = Inr (5, \<lparr>buf = ''   42'', va_args = [], qualifier = q, stores = []\<rparr>)
   \<and> vsprintf mem q ''%-5d'' [42]
     = Inr (5, \<lparr>buf = ''42   '', va_args = [], qualifier = q, stores = []\<rparr>)
   \<and> vsprintf mem q ''%05d'' [42]
     = Inr (5, \<lparr>buf = ''00042'', va_args = [], qualifier = q, stores = []\<rparr>)"
  by (simp add: vsprintf_eval loop_simps)

text \<open>
  C10: \<open>max_x\<close> is \<open>width / char_size_x\<close> and the cursor may stand in column
  \<open>max_x\<close>. For every geometry with \<open>char_size_x > 0\<close>, a glyph drawn there stores,
  on each of its scanlines, the pixel at x-offset
  \<open>max_x * char_size_x + char_size_x - 1\<close>, which is at least \<open>width\<close>; on row
  \<open>max_y\<close> (and a width that is not negative) the store of the last scanline lies at
  or beyond offset \<open>width * height\<close>. The screen state is the one \<open>init_printk\<close>
  builds, with the cursor moved to \<open>(max_x, y)\<close>; \<open>writes\<close> are the stores of the
  \<open>putchar\<close> call by which \<open>printk_color\<close> draws the printable character
  \<open>current\<close> there; \<open>i\<close> is a scanline of the glyph.
\<close>

theorem putchar_last_column_overruns:
  assumes "init_printk w h fb_address fb_length csx csy = Inr (r, pos0)"
    and "0 < csx"
    and "pos = pos0\<lparr>pos_x := max_x pos0, pos_y := y\<rparr>"
    and "0 \<le> i" and "i < csy"
    and "current \<noteq> CHR 0x0A" and "current \<noteq> CHR 0x09" and "current \<noteq> CHR 0x08"
    and "writes = putchar_writes hdr pos (width pos) (pos_x pos * char_size_x pos)
                    (pos_y pos * char_size_y pos) FRcolor BKcolor (of_char current)"
  shows "snd (printk_char hdr FRcolor BKcolor current (pos, fb))
           = foldl (\<lambda>m (a, c). m(a := c)) fb writes
         \<and> w * (y * csy + i) + (max_x pos * csx + csx - 1) \<in> fst ` set writes
         \<and> w \<le> max_x pos * csx + csx - 1
         \<and> (0 \<le> w \<and> y = max_y pos \<and> i = csy - 1
              \<longrightarrow> w * h \<le> w * (y * csy + i) + (max_x pos * csx + csx - 1))"
proof -
  from assms(4,5) have csy: "0 < csy"
    by simp
  from assms(1,2) csy have pos0: "pos0 = \<lparr> width = w, height = h, max_x = c_div w csx,
      max_y = c_div h csy, pos_x = 0, pos_y = 0, char_size_x = csx, char_size_y = csy,
      FB_address = fb_address, FB_length = fb_length \<rparr>"
    by (auto simp: init_printk_def calculate_max_charNum_def split: if_splits)
  have fields: "width pos = w" "char_size_x pos = csx" "char_size_y pos = csy"
    "max_x pos = c_div w csx" "max_y pos = c_div h csy" "pos_x pos = c_div w csx" "pos_y pos = y"
    by (simp_all add: assms(3) pos0)
  have draw: "snd (printk_char hdr FRcolor BKcolor current (pos, fb))
                = foldl (\<lambda>m (a, c). m(a := c)) fb writes"
    using assms(6-8) by (simp add: printk_char_def putchar_def assms(9))
  have col: "w \<le> c_div w csx * csx + csx - 1"
    by (rule c_div_upper [OF assms(2)])
  from assms(4,5) have "i \<in> {0 ..< csy}"
    by simp
  moreover from assms(2)
  have "w * (y * csy + i) + (c_div w csx * csx + csx - 1)
          \<in> {w * (y * csy + i) + c_div w csx * csx ..< w * (y * csy + i) + c_div w csx * csx + csx}"
    by simp
  ultimately have mem: "w * (y * csy + i) + (c_div w csx * csx + csx - 1) \<in> fst ` set writes"
    unfolding assms(9) putchar_writes_offsets fields by blast
  have last: "w * h \<le> w * (y * csy + i) + (c_div w csx * csx + csx - 1)"
    if "0 \<le> w" and "y = c_div h csy" and "i = csy - 1"
  proof -
    have "h \<le> c_div h csy * csy + csy - 1"
      by (rule c_div_upper [OF csy])
    with that have "h \<le> y * csy + i"
      by simp
    with that(1) have "w * h \<le> w * (y * csy + i)"
      by (rule mult_left_mono [rotated])
    with col that(1) show ?thesis
      by linarith
  qed
  from draw mem col last show ?thesis
    by (simp add: fields)
qed

theorem putchar_last_column_overruns_witness:
  "init_printk 20 20 0 1600 8 16
     = Inr (0, \<lparr>width = 20, height = 20, max_x = 2, max_y = 1, pos_x = 0, pos_y = 0,
                 char_size_x = 8, char_size_y = 16, FB_address = 0, FB_length = 1600\<rparr>)
   \<and> 643 \<in> fst ` set (putchar_writes \<lparr>font_ascii = \<lambda>c r. 0, BLACK = 0, EPOS_OVERFLOW = 1\<rparr>
                \<lparr>width = 20, height = 20, max_x = 2, max_y = 1, pos_x = 2, pos_y = 1,
                   char_size_x = 8, char_size_y = 16, FB_address = 0, FB_length = 1600\<rparr>
                20 16 16 0xFFFFFF 0 65)
   \<and> (20 :: int) \<le> 2 * 8 + 8 - 1
   \<and> (20 :: int) * 20 \<le> 643"
  using putchar_last_column_overruns [of 20 20 0 1600 8 16 0
      "\<lparr>width = 20, height = 20, max_x = 2, max_y = 1, pos_x = 0, pos_y = 0,
         char_size_x = 8, char_size_y = 16, FB_address = 0, FB_length = 1600\<rparr>"
      "\<lparr>width = 20, height = 20, max_x = 2, max_y = 1, pos_x = 2, pos_y = 1,
         char_size_x = 8, char_size_y = 16, FB_address = 0, FB_length = 1600\<rparr>"
      1 15 "CHR ''A''"
      "putchar_writes \<lparr>font_ascii = \<lambda>c r. 0, BLACK = 0, EPOS_OVERFLOW = 1\<rparr>
         \<lparr>width = 20, height = 20, max_x = 2, max_y = 1, pos_x = 2, pos_y = 1,
            char_size_x = 8, char_size_y = 16, FB_address = 0, FB_length = 1600\<rparr>
         20 16 16 0xFFFFFF 0 65"
      "\<lparr>font_ascii = \<lambda>c r. 0, BLACK = 0, EPOS_OVERFLOW = 1\<rparr>" "0xFFFFFF" 0]
  by (simp add: init_printk_def calculate_max_charNum_def c_div_def)

end
